theory Spec2Isabelle
  imports Main "HOL-Library.AList"
begin

section \<open>The authenticated HTTP client of \<^verbatim>\<open>frontend/src/lib/api.ts\<close>\<close>

subsection \<open>JavaScript values that the client tests and prints\<close>

text \<open>
  The tokens of the session and the \<^verbatim>\<open>access\<close> property of a refresh response are
  strings that may be missing. \<^verbatim>\<open>if (token)\<close> and \<^verbatim>\<open>!refreshToken\<close> test truthiness:
  \<^verbatim>\<open>undefined\<close>, \<^verbatim>\<open>null\<close> and the empty string are falsy. A template literal
  \<^verbatim>\<open>`Bearer ${x}`\<close> prints \<^verbatim>\<open>undefined\<close> and \<^verbatim>\<open>null\<close> by their names.
\<close>

datatype jsval = Undefined | Null | Str string

fun truthy :: "jsval \<Rightarrow> bool" where
  "truthy Undefined = False"
| "truthy Null = False"
| "truthy (Str s) = (s \<noteq> [])"

fun to_string :: "jsval \<Rightarrow> string" where
  "to_string Undefined = ''undefined''"
| "to_string Null = ''null''"
| "to_string (Str s) = s"

text \<open>Reading a property of an object: a missing property reads as \<^verbatim>\<open>undefined\<close>.\<close>

definition property :: "(string \<times> jsval) list \<Rightarrow> string \<Rightarrow> jsval" where
  "property obj k = (case map_of obj k of None \<Rightarrow> Undefined | Some v \<Rightarrow> v)"

subsection \<open>Session state\<close>

record auth_store =
  accessToken :: jsval
  refreshToken :: jsval

text \<open>
  Modelled from the spec: the store module \<^verbatim>\<open>@/stores/auth\<close> is imported by
  \<^verbatim>\<open>api.ts\<close> but is not among the sources. The spec has \<^verbatim>\<open>setTokens\<close> persist the new
  access token together with the refresh token it is given ("replaced on refresh").
\<close>

definition setTokens :: "jsval \<Rightarrow> jsval \<Rightarrow> auth_store \<Rightarrow> auth_store" where
  "setTokens access refresh s = s\<lparr>accessToken := access, refreshToken := refresh\<rparr>"

text \<open>
  Modelled from the spec: \<^verbatim>\<open>logout\<close> of the same missing store module. The spec has
  it "clear all session credentials".
\<close>

definition logout :: "auth_store \<Rightarrow> auth_store" where
  "logout s = s\<lparr>accessToken := Null, refreshToken := Null\<rparr>"

subsection \<open>Requests, responses and errors\<close>

text \<open>
  A request config as the interceptors see it. \<open>http_method\<close> is the \<^verbatim>\<open>method\<close>
  property, \<open>body\<close> is the \<^verbatim>\<open>data\<close> property and \<open>retry\<close> is \<^verbatim>\<open>_retry?: boolean\<close> (\<open>None\<close> when the property is not set).
  The headers object is a list of properties in insertion order; assigning a property
  replaces its value in place or appends it (\<open>AList.update\<close>).
\<close>

record request_config =
  baseURL :: "string option"
  url :: string
  http_method :: string
  headers :: "(string \<times> string) list"
  body :: "(string \<times> jsval) list option"
  retry :: "bool option"

text \<open>
  A response: \<open>data\<close> is \<open>None\<close> for a body that is \<^verbatim>\<open>null\<close> or \<^verbatim>\<open>undefined\<close>,
  and otherwise the properties of the body.
\<close>

record http_response =
  status :: nat
  data :: "(string \<times> jsval) list option"

text \<open>\<^verbatim>\<open>AxiosError\<close>: both \<^verbatim>\<open>config\<close> and \<^verbatim>\<open>response\<close> are optional properties.\<close>

record axios_error =
  config :: "request_config option"
  response :: "http_response option"

datatype js_error =
    AxiosError axios_error
  | Error string
  | TypeError string

datatype outcome = Fulfilled http_response | Rejected js_error

subsection \<open>The world outside the function: store, network, browser\<close>

datatype client = Bare | Api

datatype event =
    Sent client request_config
  | SetTokens jsval jsval
  | Logout
  | Navigate string

datatype wire_reply = HttpReply http_response | TransportError

text \<open>
  \<open>trace\<close> lists, oldest first, what the code did to the outside: requests handed to
  the network by the bare library (\<open>Bare\<close>) or by the configured instance (\<open>Api\<close>),
  calls of the store's \<^verbatim>\<open>setTokens\<close> and \<^verbatim>\<open>logout\<close>, and assignments to
  \<^verbatim>\<open>window.location.href\<close>. \<open>server\<close> answers the latest request given all requests
  sent so far, so that any server, with any state of its own, is an instance.
\<close>

record world =
  store :: auth_store
  trace :: "event list"
  server :: "request_config list \<Rightarrow> wire_reply"
  NEXT_PUBLIC_API_URL :: jsval

fun sent :: "event list \<Rightarrow> request_config list" where
  "sent [] = []"
| "sent (Sent cl c # es) = c # sent es"
| "sent (SetTokens a r # es) = sent es"
| "sent (Logout # es) = sent es"
| "sent (Navigate u # es) = sent es"

text \<open>The number of requests that the bare library sent: the refresh calls.\<close>

fun refresh_calls :: "event list \<Rightarrow> nat" where
  "refresh_calls [] = 0"
| "refresh_calls (Sent Bare c # es) = Suc (refresh_calls es)"
| "refresh_calls (Sent Api c # es) = refresh_calls es"
| "refresh_calls (SetTokens a r # es) = refresh_calls es"
| "refresh_calls (Logout # es) = refresh_calls es"
| "refresh_calls (Navigate u # es) = refresh_calls es"

text \<open>The calls of the store's actions, in order.\<close>

fun store_calls :: "event list \<Rightarrow> event list" where
  "store_calls [] = []"
| "store_calls (Sent cl c # es) = store_calls es"
| "store_calls (SetTokens a r # es) = SetTokens a r # store_calls es"
| "store_calls (Logout # es) = Logout # store_calls es"
| "store_calls (Navigate u # es) = store_calls es"

text \<open>\<^verbatim>\<open>const API_URL = process.env.NEXT_PUBLIC_API_URL || 'http://localhost:8000'\<close>\<close>

definition API_URL :: "world \<Rightarrow> string" where
  "API_URL w =
     (if truthy (NEXT_PUBLIC_API_URL w) then to_string (NEXT_PUBLIC_API_URL w)
      else ''http://localhost:8000'')"

text \<open>
  What the library does with a config once the request hooks have run: the request goes
  out, and the default \<^verbatim>\<open>validateStatus\<close> fulfils a 2xx answer and rejects any other
  with an error that carries the config and the response; a transport failure rejects
  with an error that carries the config and no response. \<open>reply_to w c\<close> is the
  server's answer to \<open>c\<close> when it is the next request sent in \<open>w\<close>.
\<close>

definition reply_to :: "world \<Rightarrow> request_config \<Rightarrow> wire_reply" where
  "reply_to w c = server w (sent (trace w) @ [c])"

definition settle :: "request_config \<Rightarrow> wire_reply \<Rightarrow> axios_error + http_response" where
  "settle c rep =
     (case rep of
        TransportError \<Rightarrow> Inl \<lparr>config = Some c, response = None\<rparr>
      | HttpReply r \<Rightarrow>
          if 200 \<le> status r \<and> status r < 300 then Inr r
          else Inl \<lparr>config = Some c, response = Some r\<rparr>)"

definition dispatchRequest ::
  "client \<Rightarrow> world \<Rightarrow> request_config \<Rightarrow> (axios_error + http_response) \<times> world" where
  "dispatchRequest cl w c = (settle c (reply_to w c), w\<lparr>trace := trace w @ [Sent cl c]\<rparr>)"

text \<open>
  \<^verbatim>\<open>axios.post(url, data)\<close> on the bare library: no instance defaults and no
  interceptors of this file. The library's built-in default headers are the same for
  both clients and are left out of both.
\<close>

definition axios_post ::
  "world \<Rightarrow> string \<Rightarrow> (string \<times> jsval) list \<Rightarrow> (axios_error + http_response) \<times> world" where
  "axios_post w u d =
     dispatchRequest Bare w
       \<lparr>baseURL = None, url = u, http_method = ''post'', headers = [], body = Some d, retry = None\<rparr>"

text \<open>
  \<^verbatim>\<open>axios.create({ baseURL: `${API_URL}/api`, headers: { 'Content-Type': 'application/json' } })\<close>:
  the instance defaults, under whatever the request config sets itself.
\<close>

definition mergeConfig :: "world \<Rightarrow> request_config \<Rightarrow> request_config" where
  "mergeConfig w c =
     c\<lparr>baseURL := (case baseURL c of None \<Rightarrow> Some (API_URL w @ ''/api'') | Some b \<Rightarrow> Some b),
       headers := AList.merge [(''Content-Type'', ''application/json'')] (headers c)\<rparr>"

subsection \<open>The request interceptor (lines 14 to 23)\<close>

definition request_interceptor :: "auth_store \<Rightarrow> request_config \<Rightarrow> request_config" where
  "request_interceptor s c =
     (let token = accessToken s in
      if truthy token
      then c\<lparr>headers := AList.update ''Authorization'' (''Bearer '' @ to_string token) (headers c)\<rparr>
      else c)"

text \<open>The config that \<^verbatim>\<open>api(config)\<close> hands to the network: defaults, then the hook.\<close>

definition prepared :: "world \<Rightarrow> request_config \<Rightarrow> request_config" where
  "prepared w c = request_interceptor (store w) (mergeConfig w c)"

subsection \<open>The response interceptor (lines 26 to 62)\<close>

text \<open>\<^verbatim>\<open>error.response?.status === 401\<close>\<close>

definition unauthorized :: "axios_error \<Rightarrow> bool" where
  "unauthorized e = (case response e of None \<Rightarrow> False | Some r \<Rightarrow> status r = 401)"

text \<open>
  The body of the \<^verbatim>\<open>try\<close> block up to the replay (lines 36 to 50). \<open>Inl\<close> is a throw,
  with the world as it is when the \<^verbatim>\<open>catch\<close> block starts. Destructuring
  \<^verbatim>\<open>{ access }\<close> from a \<^verbatim>\<open>null\<close> or \<^verbatim>\<open>undefined\<close> body throws a \<^verbatim>\<open>TypeError\<close>.
\<close>

definition refreshTokens ::
  "world \<Rightarrow> request_config \<Rightarrow> (js_error \<times> world) + (request_config \<times> world)" where
  "refreshTokens w originalRequest =
     (let rt = refreshToken (store w) in
      if \<not> truthy rt then Inl (Error ''No refresh token'', w)
      else
        case axios_post w (API_URL w @ ''/api/auth/refresh/'') [(''refresh'', rt)] of
          (Inl e, w1) \<Rightarrow> Inl (AxiosError e, w1)
        | (Inr resp, w1) \<Rightarrow>
            (case data resp of
               None \<Rightarrow> Inl (TypeError ''access'', w1)
             | Some obj \<Rightarrow>
                 let access = property obj ''access'';
                     w2 = w1\<lparr>store := setTokens access rt (store w1),
                             trace := trace w1 @ [SetTokens access rt]\<rparr>
                 in Inr (originalRequest
                           \<lparr>headers := AList.update ''Authorization''
                                         (''Bearer '' @ to_string access) (headers originalRequest)\<rparr>,
                         w2)))"

text \<open>
  \<open>api w c\<close> is the call \<^verbatim>\<open>api(config)\<close>: instance defaults, request interceptor,
  network, response interceptor. \<open>response_rejected\<close> is the rejection handler of the
  response interceptor. With no config on the error, reading \<^verbatim>\<open>originalRequest._retry\<close>
  throws, outside the \<^verbatim>\<open>try\<close> block. The replay \<^verbatim>\<open>return api(originalRequest)\<close> is
  not awaited, so its rejection does not reach the \<^verbatim>\<open>catch\<close> block.
\<close>

function api :: "world \<Rightarrow> request_config \<Rightarrow> outcome \<times> world"
  and response_rejected :: "world \<Rightarrow> axios_error \<Rightarrow> outcome \<times> world"
where
  "api w c =
     (case dispatchRequest Api w (prepared w c) of
        (Inr r, w') \<Rightarrow> (Fulfilled r, w')
      | (Inl e, w') \<Rightarrow> response_rejected w' e)"
| "response_rejected w error =
     (case config error of
        None \<Rightarrow>
          if unauthorized error then (Rejected (TypeError ''_retry''), w)
          else (Rejected (AxiosError error), w)
      | Some originalRequest \<Rightarrow>
          if unauthorized error \<and> retry originalRequest \<noteq> Some True then
            (case refreshTokens w (originalRequest\<lparr>retry := Some True\<rparr>) of
               Inr (req, w') \<Rightarrow> api w' req
             | Inl (refreshError, w') \<Rightarrow>
                 (Rejected refreshError,
                  w'\<lparr>store := logout (store w'),
                     trace := trace w' @ [Logout, Navigate ''/login'']\<rparr>))
          else (Rejected (AxiosError error), w))"
  by pat_completeness auto
termination
  apply (relation "measure (\<lambda>x. case x of
          Inl (w, c) \<Rightarrow> if retry c = Some True then 1 else 3
        | Inr (w, e) \<Rightarrow> (case config e of
                            None \<Rightarrow> 0
                          | Some c \<Rightarrow> if retry c = Some True then 0 else 2))")
    apply simp
   apply (auto simp: dispatchRequest_def settle_def prepared_def request_interceptor_def
      mergeConfig_def Let_def split: wire_reply.splits if_splits)[1]
  apply (auto simp: refreshTokens_def axios_post_def dispatchRequest_def Let_def
      split: if_splits sum.splits option.splits)
  done

declare api.simps [simp del] response_rejected.simps [simp del]

subsection \<open>Derived notions used to state the properties\<close>

text \<open>The request that line 42 hands to the bare library in world \<open>w\<close>.\<close>

definition refresh_request :: "world \<Rightarrow> request_config" where
  "refresh_request w =
     \<lparr>baseURL = None, url = API_URL w @ ''/api/auth/refresh/'', http_method = ''post'', headers = [],
      body = Some [(''refresh'', refreshToken (store w))], retry = None\<rparr>"

text \<open>
  What the caller of \<^verbatim>\<open>api(config)\<close> gets when the response interceptor passes the
  settled request through: the response, or a rejection with the error.
\<close>

fun outcome_of :: "axios_error + http_response \<Rightarrow> outcome" where
  "outcome_of (Inr r) = Fulfilled r"
| "outcome_of (Inl e) = Rejected (AxiosError e)"

text \<open>
  The world after a refresh that returned \<open>access\<close> (lines 42 to 47), and the original
  request as it is when line 51 replays it (lines 33 and 50).
\<close>

definition refreshed :: "world \<Rightarrow> jsval \<Rightarrow> world" where
  "refreshed w access =
     w\<lparr>store := setTokens access (refreshToken (store w)) (store w),
       trace := trace w @ [Sent Bare (refresh_request w),
                           SetTokens access (refreshToken (store w))]\<rparr>"

definition replay_request :: "request_config \<Rightarrow> jsval \<Rightarrow> request_config" where
  "replay_request c access =
     c\<lparr>retry := Some True,
       headers := AList.update ''Authorization'' (''Bearer '' @ to_string access) (headers c)\<rparr>"

subsection \<open>The exported helper \<^verbatim>\<open>authApi.refresh\<close> (lines 72 to 73)\<close>

definition api_post :: "world \<Rightarrow> string \<Rightarrow> (string \<times> jsval) list \<Rightarrow> outcome \<times> world" where
  "api_post w u d =
     api w \<lparr>baseURL = None, url = u, http_method = ''post'', headers = [], body = Some d, retry = None\<rparr>"

definition authApi_refresh :: "world \<Rightarrow> string \<Rightarrow> outcome \<times> world" where
  "authApi_refresh w tok = api_post w ''/auth/refresh/'' [(''refresh'', Str tok)]"

subsection \<open>Two servers and a session, for concrete runs\<close>

text \<open>A server that answers 401 to everything, the refresh endpoint included.\<close>

definition denying_server :: "request_config list \<Rightarrow> wire_reply" where
  "denying_server h = HttpReply \<lparr>status = 401, data = None\<rparr>"

text \<open>A network that is down: every request fails without a response.\<close>

definition offline_server :: "request_config list \<Rightarrow> wire_reply" where
  "offline_server h = TransportError"

text \<open>
  A server that issues the access token \<^verbatim>\<open>new\<close> at the refresh endpoint and accepts
  no other bearer token.
\<close>

definition renewing_server :: "request_config list \<Rightarrow> wire_reply" where
  "renewing_server h =
     (let c = last h in
      if url c = ''http://localhost:8000/api/auth/refresh/''
      then HttpReply \<lparr>status = 200, data = Some [(''access'', Str ''new'')]\<rparr>
      else if map_of (headers c) ''Authorization'' = Some ''Bearer new''
      then HttpReply \<lparr>status = 200, data = Some []\<rparr>
      else HttpReply \<lparr>status = 401, data = None\<rparr>)"

definition session :: "jsval \<Rightarrow> jsval \<Rightarrow> (request_config list \<Rightarrow> wire_reply) \<Rightarrow> world" where
  "session a r srv =
     \<lparr>store = \<lparr>accessToken = a, refreshToken = r\<rparr>, trace = [], server = srv,
      NEXT_PUBLIC_API_URL = Undefined\<rparr>"

text \<open>\<^verbatim>\<open>api.get('/auth/me/')\<close> as the caller writes it, and as it comes back in an error.\<close>

definition me_request :: request_config where
  "me_request =
     \<lparr>baseURL = None, url = ''/auth/me/'', http_method = ''get'', headers = [], body = None,
      retry = None\<rparr>"

definition me_sent :: request_config where
  "me_sent =
     \<lparr>baseURL = Some ''http://localhost:8000/api'', url = ''/auth/me/'', http_method = ''get'',
      headers = [(''Content-Type'', ''application/json''), (''Authorization'', ''Bearer old'')],
      body = None, retry = None\<rparr>"

definition error_with :: "request_config option \<Rightarrow> nat \<Rightarrow> axios_error" where
  "error_with c n = \<lparr>config = c, response = Some \<lparr>status = n, data = None\<rparr>\<rparr>"

section \<open>Properties\<close>

subsection \<open>Auxiliary facts\<close>

lemma sent_append [simp]: "sent (xs @ ys) = sent xs @ sent ys"
  by (induction xs rule: sent.induct) simp_all

lemma refresh_calls_append [simp]: "refresh_calls (xs @ ys) = refresh_calls xs + refresh_calls ys"
  by (induction xs rule: refresh_calls.induct) simp_all

lemma retry_prepared [simp]: "retry (prepared w c) = retry c"
  by (simp add: prepared_def request_interceptor_def mergeConfig_def Let_def)

lemma api_retried:
  "retry c = Some True \<Longrightarrow>
   api w c = (outcome_of (settle (prepared w c) (reply_to w (prepared w c))),
              w\<lparr>trace := trace w @ [Sent Api (prepared w c)]\<rparr>)"
  by (auto simp: api.simps response_rejected.simps dispatchRequest_def settle_def
      split: wire_reply.splits)

lemma response_rejected_pass:
  "\<not> unauthorized e \<or> (\<exists>c. config e = Some c \<and> retry c = Some True) \<Longrightarrow>
   response_rejected w e = (Rejected (AxiosError e), w)"
  by (auto simp: response_rejected.simps split: option.splits)

lemma refreshTokens_no_token:
  "\<not> truthy (refreshToken (store w)) \<Longrightarrow> refreshTokens w c = Inl (Error ''No refresh token'', w)"
  by (simp add: refreshTokens_def)

lemma refreshTokens_sent:
  "truthy (refreshToken (store w)) \<Longrightarrow>
   refreshTokens w c =
     (case settle (refresh_request w) (reply_to w (refresh_request w)) of
        Inl e \<Rightarrow> Inl (AxiosError e, w\<lparr>trace := trace w @ [Sent Bare (refresh_request w)]\<rparr>)
      | Inr resp \<Rightarrow>
         (case data resp of
            None \<Rightarrow> Inl (TypeError ''access'', w\<lparr>trace := trace w @ [Sent Bare (refresh_request w)]\<rparr>)
          | Some obj \<Rightarrow>
              Inr (c\<lparr>headers := AList.update ''Authorization''
                        (''Bearer '' @ to_string (property obj ''access'')) (headers c)\<rparr>,
                   w\<lparr>store := setTokens (property obj ''access'') (refreshToken (store w)) (store w),
                     trace := trace w @ [Sent Bare (refresh_request w),
                                         SetTokens (property obj ''access'') (refreshToken (store w))]\<rparr>)))"
  by (simp add: refreshTokens_def axios_post_def dispatchRequest_def refresh_request_def Let_def
      split: sum.splits option.splits)

lemma settle_config: "settle p rep = Inl e \<Longrightarrow> config e = Some p"
  by (auto simp: settle_def split: wire_reply.splits if_splits)

lemma store_calls_append [simp]: "store_calls (xs @ ys) = store_calls xs @ store_calls ys"
  by (induction xs rule: store_calls.induct) simp_all

lemma refresh_request_trace [simp]: "refresh_request (w\<lparr>trace := t\<rparr>) = refresh_request w"
  by (simp add: refresh_request_def API_URL_def)

lemma replay_authorization:
  "map_of (headers (prepared (refreshed w a) (replay_request c a))) ''Authorization''
     = Some (''Bearer '' @ to_string a)"
  by (simp add: prepared_def request_interceptor_def mergeConfig_def refreshed_def
      replay_request_def setTokens_def Let_def update_conv' merge_conv')

lemma response_rejected_refresh_ok:
  assumes "config e = Some c" "unauthorized e" "retry c \<noteq> Some True"
    and "truthy (refreshToken (store w))"
    and "settle (refresh_request w) (reply_to w (refresh_request w)) = Inr r"
    and "data r = Some obj"
  shows "response_rejected w e =
           (outcome_of (settle (prepared (refreshed w (property obj ''access''))
                                   (replay_request c (property obj ''access'')))
                         (reply_to (refreshed w (property obj ''access''))
                            (prepared (refreshed w (property obj ''access''))
                               (replay_request c (property obj ''access''))))),
            (refreshed w (property obj ''access''))
              \<lparr>trace := trace (refreshed w (property obj ''access'')) @
                 [Sent Api (prepared (refreshed w (property obj ''access''))
                                     (replay_request c (property obj ''access'')))]\<rparr>)"
proof -
  have "refreshTokens w (c\<lparr>retry := Some True\<rparr>) =
          Inr (replay_request c (property obj ''access''), refreshed w (property obj ''access''))"
    using assms(4-6)
    by (simp add: refreshTokens_sent refreshed_def replay_request_def)
  moreover have "retry (replay_request c (property obj ''access'')) = Some True"
    by (simp add: replay_request_def)
  ultimately show ?thesis
    using assms(1-3) by (simp add: response_rejected.simps api_retried)
qed

lemma response_rejected_refresh_failed:
  assumes "config e = Some c" "unauthorized e" "retry c \<noteq> Some True"
    and "truthy (refreshToken (store w))"
    and "settle (refresh_request w) (reply_to w (refresh_request w)) = Inl x"
  shows "response_rejected w e =
           (Rejected (AxiosError x),
            w\<lparr>store := logout (store w),
              trace := trace w @ [Sent Bare (refresh_request w), Logout, Navigate ''/login'']\<rparr>)"
  using assms by (simp add: response_rejected.simps refreshTokens_sent)

lemma response_rejected_no_token:
  assumes "config e = Some c" "unauthorized e" "retry c \<noteq> Some True"
    and "\<not> truthy (refreshToken (store w))"
  shows "response_rejected w e =
           (Rejected (Error ''No refresh token''),
            w\<lparr>store := logout (store w), trace := trace w @ [Logout, Navigate ''/login'']\<rparr>)"
  using assms by (simp add: response_rejected.simps refreshTokens_no_token)

lemma response_rejected_null_body:
  assumes "config e = Some c" "unauthorized e" "retry c \<noteq> Some True"
    and "truthy (refreshToken (store w))"
    and "settle (refresh_request w) (reply_to w (refresh_request w)) = Inr r" "data r = None"
  shows "response_rejected w e =
           (Rejected (TypeError ''access''),
            w\<lparr>store := logout (store w),
              trace := trace w @ [Sent Bare (refresh_request w), Logout, Navigate ''/login'']\<rparr>)"
  using assms by (simp add: response_rejected.simps refreshTokens_sent)

lemma update_single_key:
  "distinct (map fst al) \<Longrightarrow> length (filter (\<lambda>h. fst h = k) (AList.update k v al)) = 1"
proof (induction al)
  case Nil
  then show ?case by simp
next
  case (Cons a al)
  show ?case
  proof (cases "fst a = k")
    case True
    with Cons.prems have "\<forall>h \<in> set al. fst h \<noteq> k" by (auto simp: image_iff)
    then have "filter (\<lambda>h. fst h = k) al = []" by (simp add: filter_empty_conv)
    with True show ?thesis by simp
  next
    case False
    with Cons show ?thesis by simp
  qed
qed

lemma settle_ok: "200 \<le> status r \<and> status r < 300 \<Longrightarrow> settle c (HttpReply r) = Inr r"
  by (simp add: settle_def)

lemma settle_transport: "settle c TransportError = Inl \<lparr>config = Some c, response = None\<rparr>"
  by (simp add: settle_def)

lemma settle_bad:
  "\<not> (200 \<le> status r \<and> status r < 300) \<Longrightarrow>
   settle c (HttpReply r) = Inl \<lparr>config = Some c, response = Some r\<rparr>"
  by (simp add: settle_def)

lemma response_rejected_trace_shape:
  assumes "config e = Some c" and "unauthorized e" and "retry c \<noteq> Some True"
  shows "\<exists>evs. trace (snd (response_rejected w e)) = trace w @ evs
       \<and> (evs = [Logout, Navigate ''/login''] \<and> \<not> truthy (refreshToken (store w))
          \<or> evs = [Sent Bare (refresh_request w), Logout, Navigate ''/login'']
              \<and> truthy (refreshToken (store w))
          \<or> (\<exists>a p. evs = [Sent Bare (refresh_request w), SetTokens a (refreshToken (store w)),
                            Sent Api p] \<and> retry p = Some True
              \<and> truthy (refreshToken (store w))))"
proof (cases "truthy (refreshToken (store w))")
  case False
  with assms show ?thesis by (simp add: response_rejected_no_token)
next
  case rt: True
  show ?thesis
  proof (cases "settle (refresh_request w) (reply_to w (refresh_request w))")
    case (Inl x)
    with assms rt show ?thesis by (simp add: response_rejected_refresh_failed)
  next
    case (Inr r)
    show ?thesis
    proof (cases "data r")
      case None
      with Inr assms rt show ?thesis by (simp add: response_rejected_null_body)
    next
      case (Some obj)
      with Inr assms rt show ?thesis
        by (simp add: response_rejected_refresh_ok refreshed_def replay_request_def)
    qed
  qed
qed

lemma api_first_dispatch:
  "api w c = (case settle (prepared w c) (reply_to w (prepared w c)) of
                Inr r \<Rightarrow> (Fulfilled r, w\<lparr>trace := trace w @ [Sent Api (prepared w c)]\<rparr>)
              | Inl e \<Rightarrow> response_rejected (w\<lparr>trace := trace w @ [Sent Api (prepared w c)]\<rparr>) e)"
  by (simp add: api.simps dispatchRequest_def)

lemma api_trace_shape:
  "\<exists>evs. trace (snd (api w c)) = trace w @ Sent Api (prepared w c) # evs
       \<and> (retry c = Some True \<longrightarrow> evs = [])
       \<and> (evs = [] \<or> evs = [Logout, Navigate ''/login'']
          \<or> evs = [Sent Bare (refresh_request w), Logout, Navigate ''/login'']
          \<or> (\<exists>a p. evs = [Sent Bare (refresh_request w), SetTokens a (refreshToken (store w)),
                            Sent Api p] \<and> retry p = Some True))"
proof (cases "settle (prepared w c) (reply_to w (prepared w c))")
  case (Inr r)
  then show ?thesis by (simp add: api_first_dispatch)
next
  case (Inl e)
  then have cfg: "config e = Some (prepared w c)" by (rule settle_config)
  show ?thesis
  proof (cases "unauthorized e \<and> retry c \<noteq> Some True")
    case False
    with Inl cfg show ?thesis by (auto simp: api_first_dispatch response_rejected_pass)
  next
    case True
    then have "retry (prepared w c) \<noteq> Some True" by simp
    from response_rejected_trace_shape [OF cfg _ this,
        of "w\<lparr>trace := trace w @ [Sent Api (prepared w c)]\<rparr>"] True Inl
    show ?thesis by (auto simp: api_first_dispatch)
  qed
qed

lemma api_unauthorized_refreshes:
  assumes "reply_to w (prepared w c) = HttpReply r" and "status r = 401"
    and "retry c \<noteq> Some True" and "truthy (refreshToken (store w))"
  shows "\<exists>evs. trace (snd (api w c))
           = trace w @ Sent Api (prepared w c) # Sent Bare (refresh_request w) # evs"
proof -
  let ?e = "\<lparr>config = Some (prepared w c), response = Some r\<rparr>"
  have s: "settle (prepared w c) (reply_to w (prepared w c)) = Inl ?e"
    using assms(1,2) by (simp add: settle_def)
  have "unauthorized ?e" using assms(2) by (simp add: unauthorized_def)
  moreover have "config ?e = Some (prepared w c)" by simp
  moreover have "retry (prepared w c) \<noteq> Some True" using assms(3) by simp
  ultimately have "\<exists>evs. trace (snd (response_rejected
                       (w\<lparr>trace := trace w @ [Sent Api (prepared w c)]\<rparr>) ?e))
            = trace (w\<lparr>trace := trace w @ [Sent Api (prepared w c)]\<rparr>) @ evs
       \<and> (evs = [Logout, Navigate ''/login''] \<and> \<not> truthy (refreshToken (store w))
          \<or> evs = [Sent Bare (refresh_request w), Logout, Navigate ''/login'']
              \<and> truthy (refreshToken (store w))
          \<or> (\<exists>a p. evs = [Sent Bare (refresh_request w), SetTokens a (refreshToken (store w)),
                            Sent Api p] \<and> retry p = Some True
              \<and> truthy (refreshToken (store w))))"
    using response_rejected_trace_shape
      [of ?e "prepared w c" "w\<lparr>trace := trace w @ [Sent Api (prepared w c)]\<rparr>"]
    by simp
  with assms(4) s show ?thesis by (auto simp: api_first_dispatch)
qed

lemma prepared_authorization:
  "truthy (accessToken (store w)) \<Longrightarrow>
   map_of (headers (prepared w c)) ''Authorization''
     = Some (''Bearer '' @ to_string (accessToken (store w)))"
  by (simp add: prepared_def request_interceptor_def Let_def update_conv')

lemmas run_defs = session_def error_with_def unauthorized_def me_sent_def me_request_def
  refresh_request_def API_URL_def reply_to_def denying_server_def renewing_server_def
  offline_server_def logout_def

subsection \<open>The request interceptor\<close>

text \<open>
  Claim C6. The pre-send hook, for a request config \<open>c\<close> and the session state \<open>s\<close> at
  dispatch time. When the access token passes the hook's test \<^verbatim>\<open>if (token)\<close>, the
  returned config has the header \<^verbatim>\<open>Authorization\<close> with the value \<^verbatim>\<open>Bearer\<close>, a
  space and that token; the headers object (whose keys are distinct) holds exactly one
  property of that name; every other header and every other field of the config is as
  it was. When the token does not pass the test, the hook returns the config as it got
  it. The hook is a total function with no throwing branch.
\<close>

theorem request_interceptor_bearer:
  "(truthy (accessToken s) \<longrightarrow>
      map_of (headers (request_interceptor s c)) ''Authorization''
        = Some (''Bearer '' @ to_string (accessToken s))
      \<and> accessToken s = Str (to_string (accessToken s))
      \<and> (distinct (map fst (headers c)) \<longrightarrow>
           length (filter (\<lambda>h. fst h = ''Authorization'') (headers (request_interceptor s c))) = 1)
      \<and> (\<forall>k. k \<noteq> ''Authorization'' \<longrightarrow>
           map_of (headers (request_interceptor s c)) k = map_of (headers c) k)
      \<and> request_interceptor s c = c\<lparr>headers := headers (request_interceptor s c)\<rparr>)
   \<and> (\<not> truthy (accessToken s) \<longrightarrow> request_interceptor s c = c)"
  by (cases "accessToken s")
     (simp_all add: request_interceptor_def Let_def update_conv' update_single_key)

theorem request_interceptor_bearer_witness:
  "truthy (accessToken \<lparr>accessToken = Str ''old'', refreshToken = Str ''r1''\<rparr>)
   \<and> distinct (map fst (headers me_sent))
   \<and> map_of (headers (request_interceptor
                 \<lparr>accessToken = Str ''old'', refreshToken = Str ''r1''\<rparr> me_sent)) ''Authorization''
       = Some ''Bearer old''
   \<and> length (filter (\<lambda>h. fst h = ''Authorization'')
         (headers (request_interceptor
                 \<lparr>accessToken = Str ''old'', refreshToken = Str ''r1''\<rparr> me_sent))) = 1
   \<and> \<not> truthy (accessToken \<lparr>accessToken = Null, refreshToken = Null\<rparr>)
   \<and> request_interceptor \<lparr>accessToken = Null, refreshToken = Null\<rparr> me_request = me_request"
  using request_interceptor_bearer
          [where s = "\<lparr>accessToken = Str ''old'', refreshToken = Str ''r1''\<rparr>" and c = me_sent]
        request_interceptor_bearer
          [where s = "\<lparr>accessToken = Null, refreshToken = Null\<rparr>" and c = me_request]
  by (simp add: me_sent_def)

subsection \<open>The response interceptor: refresh and replay\<close>

text \<open>
  Claim C1, as amended. A 401 on a request not yet marked retried, with a refresh token
  in the session, when the refresh call is answered 2xx with a body that is not
  \<^verbatim>\<open>null\<close>: the handler sends exactly one POST to the refresh endpoint with the body
  \<^verbatim>\<open>{ refresh: <refresh token> }\<close>, stores the \<^verbatim>\<open>access\<close> property of the answer as
  the session's access token, sends the original request (same url, method and body)
  exactly once more, flagged as retried and with \<^verbatim>\<open>Authorization: Bearer <access>\<close>, and
  gives the caller the outcome of that replay. Nothing else is sent or done.
\<close>

theorem refresh_then_replay:
  assumes "config e = Some c" and "unauthorized e" and "retry c \<noteq> Some True"
    and "truthy (refreshToken (store w))"
    and "reply_to w (refresh_request w) = HttpReply r"
    and "200 \<le> status r \<and> status r < 300"
    and "data r = Some obj"
  shows "let access = property obj ''access'';
             w2 = refreshed w access;
             p = prepared w2 (replay_request c access);
             res = response_rejected w e
         in trace (snd res) =
              trace w @ [Sent Bare (refresh_request w),
                         SetTokens access (refreshToken (store w)),
                         Sent Api p]
          \<and> refresh_request w =
              \<lparr>baseURL = None, url = API_URL w @ ''/api/auth/refresh/'', http_method = ''post'',
               headers = [], body = Some [(''refresh'', refreshToken (store w))], retry = None\<rparr>
          \<and> accessToken (store (snd res)) = access
          \<and> url p = url c \<and> http_method p = http_method c \<and> body p = body c
          \<and> map_of (headers p) ''Authorization'' = Some (''Bearer '' @ to_string access)
          \<and> fst res = outcome_of (settle p (reply_to w2 p))"
proof -
  from assms(5,6) have "settle (refresh_request w) (reply_to w (refresh_request w)) = Inr r"
    by (simp add: settle_ok)
  from response_rejected_refresh_ok [OF assms(1-4) this assms(7)]
  show ?thesis
    by (simp add: Let_def replay_authorization)
       (simp add: refreshed_def setTokens_def refresh_request_def prepared_def
          request_interceptor_def mergeConfig_def replay_request_def Let_def)
qed

theorem refresh_then_replay_witness:
  "config (error_with (Some me_sent) 401) = Some me_sent
   \<and> unauthorized (error_with (Some me_sent) 401)
   \<and> retry me_sent \<noteq> Some True
   \<and> truthy (refreshToken (store (session (Str ''old'') (Str ''r1'') renewing_server)))
   \<and> reply_to (session (Str ''old'') (Str ''r1'') renewing_server)
         (refresh_request (session (Str ''old'') (Str ''r1'') renewing_server))
       = HttpReply \<lparr>status = 200, data = Some [(''access'', Str ''new'')]\<rparr>
   \<and> trace (snd (response_rejected (session (Str ''old'') (Str ''r1'') renewing_server)
                   (error_with (Some me_sent) 401)))
       = [Sent Bare \<lparr>baseURL = None, url = ''http://localhost:8000/api/auth/refresh/'',
                     http_method = ''post'', headers = [],
                     body = Some [(''refresh'', Str ''r1'')], retry = None\<rparr>,
          SetTokens (Str ''new'') (Str ''r1''),
          Sent Api \<lparr>baseURL = Some ''http://localhost:8000/api'', url = ''/auth/me/'',
                    http_method = ''get'',
                    headers = [(''Content-Type'', ''application/json''),
                               (''Authorization'', ''Bearer new'')],
                    body = None, retry = Some True\<rparr>]
   \<and> accessToken (store (snd (response_rejected (session (Str ''old'') (Str ''r1'') renewing_server)
                   (error_with (Some me_sent) 401)))) = Str ''new''
   \<and> fst (response_rejected (session (Str ''old'') (Str ''r1'') renewing_server)
                   (error_with (Some me_sent) 401))
       = Fulfilled \<lparr>status = 200, data = Some []\<rparr>"
proof -
  let ?w = "session (Str ''old'') (Str ''r1'') renewing_server"
  let ?e = "error_with (Some me_sent) 401"
  let ?r = "\<lparr>status = 200, data = Some [(''access'', Str ''new'')]\<rparr>"
  have h1: "config ?e = Some me_sent" by (simp add: error_with_def)
  have h2: "unauthorized ?e" by (simp add: error_with_def unauthorized_def)
  have h3: "retry me_sent \<noteq> Some True" by (simp add: me_sent_def)
  have h4: "truthy (refreshToken (store ?w))" by (simp add: session_def)
  have h5: "reply_to ?w (refresh_request ?w) = HttpReply ?r"
    by (simp add: reply_to_def refresh_request_def session_def renewing_server_def API_URL_def)
  have h6: "200 \<le> status ?r \<and> status ?r < 300" by simp
  have h7: "data ?r = Some [(''access'', Str ''new'')]" by simp
  have p: "prepared (refreshed ?w (Str ''new'')) (replay_request me_sent (Str ''new''))
         = \<lparr>baseURL = Some ''http://localhost:8000/api'', url = ''/auth/me/'',
                    http_method = ''get'',
                    headers = [(''Content-Type'', ''application/json''),
                               (''Authorization'', ''Bearer new'')],
                    body = None, retry = Some True\<rparr>"
    by (simp add: prepared_def refreshed_def replay_request_def me_sent_def session_def
        request_interceptor_def mergeConfig_def setTokens_def AList.merge_def)
  have q: "reply_to (refreshed ?w (Str ''new''))
             \<lparr>baseURL = Some ''http://localhost:8000/api'', url = ''/auth/me/'',
                    http_method = ''get'',
                    headers = [(''Content-Type'', ''application/json''),
                               (''Authorization'', ''Bearer new'')],
                    body = None, retry = Some True\<rparr>
           = HttpReply \<lparr>status = 200, data = Some []\<rparr>"
    by (simp add: reply_to_def refreshed_def session_def renewing_server_def)
  from refresh_then_replay [OF h1 h2 h3 h4 h5 h6 h7] h1 h2 h3 h4 h5
  show ?thesis
    by (simp add: Let_def property_def p q settle_def)
       (simp add: refresh_request_def session_def API_URL_def)
qed

text \<open>
  Claim C1 as stated asks for this whenever a refresh token is present. It fails when
  the refresh call itself is rejected: with the refresh token \<^verbatim>\<open>r1\<close> in the session and
  a server that answers the refresh call with 401, the handler sends the refresh call,
  logs out and navigates to the login page; the request is not replayed, the access token
  is cleared rather than updated, and the caller receives the refresh error.
\<close>

theorem refresh_then_replay_counterexample:
  "config (error_with (Some me_sent) 401) = Some me_sent
   \<and> unauthorized (error_with (Some me_sent) 401)
   \<and> retry me_sent \<noteq> Some True
   \<and> truthy (refreshToken (store (session (Str ''old'') (Str ''r1'') denying_server)))
   \<and> trace (snd (response_rejected (session (Str ''old'') (Str ''r1'') denying_server)
                   (error_with (Some me_sent) 401)))
       = [Sent Bare \<lparr>baseURL = None, url = ''http://localhost:8000/api/auth/refresh/'',
                     http_method = ''post'', headers = [],
                     body = Some [(''refresh'', Str ''r1'')], retry = None\<rparr>,
          Logout, Navigate ''/login'']
   \<and> accessToken (store (snd (response_rejected (session (Str ''old'') (Str ''r1'') denying_server)
                   (error_with (Some me_sent) 401)))) = Null
   \<and> fst (response_rejected (session (Str ''old'') (Str ''r1'') denying_server)
                   (error_with (Some me_sent) 401))
       = Rejected (AxiosError
           \<lparr>config = Some \<lparr>baseURL = None, url = ''http://localhost:8000/api/auth/refresh/'',
                     http_method = ''post'', headers = [],
                     body = Some [(''refresh'', Str ''r1'')], retry = None\<rparr>,
            response = Some \<lparr>status = 401, data = None\<rparr>\<rparr>)"
proof -
  let ?w = "session (Str ''old'') (Str ''r1'') denying_server"
  let ?e = "error_with (Some me_sent) 401"
  have h1: "config ?e = Some me_sent" by (simp add: error_with_def)
  have h2: "unauthorized ?e" by (simp add: error_with_def unauthorized_def)
  have h3: "retry me_sent \<noteq> Some True" by (simp add: me_sent_def)
  have h4: "truthy (refreshToken (store ?w))" by (simp add: session_def)
  have h5: "settle (refresh_request ?w) (reply_to ?w (refresh_request ?w))
          = Inl \<lparr>config = Some (refresh_request ?w),
                 response = Some \<lparr>status = 401, data = None\<rparr>\<rparr>"
    by (simp add: reply_to_def session_def denying_server_def settle_def)
  from response_rejected_refresh_failed [OF h1 h2 h3 h4 h5] h1 h2 h3 h4
  show ?thesis
    by (simp add: logout_def) (simp add: refresh_request_def session_def API_URL_def)
qed

text \<open>
  Claim C7. On a successful refresh the handler calls \<^verbatim>\<open>setTokens\<close> once, with the
  \<^verbatim>\<open>access\<close> property of the answer and the very refresh token it read before the
  call and sent in the body; it makes no other call to the store. Afterwards the
  session's refresh token is the one it was and the access token is the new one.
\<close>

theorem refresh_keeps_refresh_token:
  assumes "config e = Some c" and "unauthorized e" and "retry c \<noteq> Some True"
    and "truthy (refreshToken (store w))"
    and "reply_to w (refresh_request w) = HttpReply r"
    and "200 \<le> status r \<and> status r < 300"
    and "data r = Some obj"
  shows "refreshToken (store (snd (response_rejected w e))) = refreshToken (store w)
       \<and> accessToken (store (snd (response_rejected w e))) = property obj ''access''
       \<and> store_calls (trace (snd (response_rejected w e)))
           = store_calls (trace w) @ [SetTokens (property obj ''access'') (refreshToken (store w))]
       \<and> body (refresh_request w) = Some [(''refresh'', refreshToken (store w))]"
proof -
  from assms(5,6) have "settle (refresh_request w) (reply_to w (refresh_request w)) = Inr r"
    by (simp add: settle_ok)
  from response_rejected_refresh_ok [OF assms(1-4) this assms(7)]
  show ?thesis
    by (simp add: refreshed_def setTokens_def refresh_request_def)
qed

theorem refresh_keeps_refresh_token_witness:
  "config (error_with (Some me_sent) 401) = Some me_sent
   \<and> unauthorized (error_with (Some me_sent) 401) \<and> retry me_sent \<noteq> Some True
   \<and> truthy (refreshToken (store (session (Str ''old'') (Str ''r1'') renewing_server)))
   \<and> reply_to (session (Str ''old'') (Str ''r1'') renewing_server)
         (refresh_request (session (Str ''old'') (Str ''r1'') renewing_server))
       = HttpReply \<lparr>status = 200, data = Some [(''access'', Str ''new'')]\<rparr>
   \<and> store (snd (response_rejected (session (Str ''old'') (Str ''r1'') renewing_server)
                   (error_with (Some me_sent) 401)))
       = \<lparr>accessToken = Str ''new'', refreshToken = Str ''r1''\<rparr>
   \<and> store_calls (trace (snd (response_rejected (session (Str ''old'') (Str ''r1'') renewing_server)
                   (error_with (Some me_sent) 401))))
       = [SetTokens (Str ''new'') (Str ''r1'')]"
  using refresh_keeps_refresh_token
          [where e = "error_with (Some me_sent) 401" and c = me_sent
             and w = "session (Str ''old'') (Str ''r1'') renewing_server"
             and r = "\<lparr>status = 200, data = Some [(''access'', Str ''new'')]\<rparr>"
             and obj = "[(''access'', Str ''new'')]"]
  by (simp add: run_defs property_def)

subsection \<open>The response interceptor: failures\<close>

text \<open>
  Claim C2. A 401 on a request not yet marked retried, when the refresh attempt fails:
  because no refresh token is in the session (the synthetic error), because the refresh
  call gets no response (network error), or because it is answered with a status
  outside 2xx. In each case the handler calls \<^verbatim>\<open>logout\<close>, which clears both tokens,
  then assigns \<^verbatim>\<open>'/login'\<close> to the location, and rejects with the error of the refresh
  attempt. That error is not the original one (here: whenever the original request is
  not, value for value, the refresh request itself, which the instance never sends since
  it always sets a base URL).
\<close>

theorem failed_refresh_logs_out:
  assumes "config e = Some c" and "unauthorized e" and "retry c \<noteq> Some True"
  shows "(\<not> truthy (refreshToken (store w)) \<longrightarrow>
            response_rejected w e =
              (Rejected (Error ''No refresh token''),
               w\<lparr>store := logout (store w), trace := trace w @ [Logout, Navigate ''/login'']\<rparr>))
       \<and> (truthy (refreshToken (store w)) \<and> reply_to w (refresh_request w) = TransportError \<longrightarrow>
            response_rejected w e =
              (Rejected (AxiosError \<lparr>config = Some (refresh_request w), response = None\<rparr>),
               w\<lparr>store := logout (store w),
                 trace := trace w @ [Sent Bare (refresh_request w), Logout, Navigate ''/login'']\<rparr>))
       \<and> (truthy (refreshToken (store w)) \<and> reply_to w (refresh_request w) = HttpReply r
            \<and> \<not> (200 \<le> status r \<and> status r < 300) \<longrightarrow>
            response_rejected w e =
              (Rejected (AxiosError \<lparr>config = Some (refresh_request w), response = Some r\<rparr>),
               w\<lparr>store := logout (store w),
                 trace := trace w @ [Sent Bare (refresh_request w), Logout, Navigate ''/login'']\<rparr>))
       \<and> accessToken (logout (store w)) = Null \<and> refreshToken (logout (store w)) = Null
       \<and> ((\<not> truthy (refreshToken (store w)) \<or> reply_to w (refresh_request w) = TransportError
            \<or> (reply_to w (refresh_request w) = HttpReply r
                \<and> \<not> (200 \<le> status r \<and> status r < 300)))
           \<and> c \<noteq> refresh_request w \<longrightarrow>
           fst (response_rejected w e) \<noteq> Rejected (AxiosError e))"
proof -
  have a: "\<not> truthy (refreshToken (store w)) \<Longrightarrow>
            response_rejected w e =
              (Rejected (Error ''No refresh token''),
               w\<lparr>store := logout (store w), trace := trace w @ [Logout, Navigate ''/login'']\<rparr>)"
    using assms by (rule response_rejected_no_token)
  have b: "truthy (refreshToken (store w)) \<Longrightarrow> reply_to w (refresh_request w) = TransportError \<Longrightarrow>
            response_rejected w e =
              (Rejected (AxiosError \<lparr>config = Some (refresh_request w), response = None\<rparr>),
               w\<lparr>store := logout (store w),
                 trace := trace w @ [Sent Bare (refresh_request w), Logout, Navigate ''/login'']\<rparr>)"
    using assms by (simp add: response_rejected_refresh_failed settle_transport)
  have c: "truthy (refreshToken (store w)) \<Longrightarrow> reply_to w (refresh_request w) = HttpReply r \<Longrightarrow>
            \<not> (200 \<le> status r \<and> status r < 300) \<Longrightarrow>
            response_rejected w e =
              (Rejected (AxiosError \<lparr>config = Some (refresh_request w), response = Some r\<rparr>),
               w\<lparr>store := logout (store w),
                 trace := trace w @ [Sent Bare (refresh_request w), Logout, Navigate ''/login'']\<rparr>)"
    using assms by (simp add: response_rejected_refresh_failed settle_bad)
  have d: "c \<noteq> refresh_request w \<Longrightarrow>
             \<lparr>config = Some (refresh_request w), response = x\<rparr> \<noteq> e" for x
    using assms(1) by auto
  have f: "fst (response_rejected w e) \<noteq> Rejected (AxiosError e)"
    if "\<not> truthy (refreshToken (store w)) \<or> reply_to w (refresh_request w) = TransportError
          \<or> (reply_to w (refresh_request w) = HttpReply r
              \<and> \<not> (200 \<le> status r \<and> status r < 300))"
      and ne: "c \<noteq> refresh_request w"
  proof (cases "truthy (refreshToken (store w))")
    case False
    then show ?thesis by (simp add: a)
  next
    case True
    with that(1) consider "reply_to w (refresh_request w) = TransportError"
      | "reply_to w (refresh_request w) = HttpReply r" "\<not> (200 \<le> status r \<and> status r < 300)"
      by blast
    then show ?thesis
    proof cases
      case 1
      with True ne show ?thesis by (simp add: b d)
    next
      case 2
      with True ne show ?thesis by (simp add: c d)
    qed
  qed
  have g: "accessToken (logout (store w)) = Null \<and> refreshToken (logout (store w)) = Null"
    by (simp add: logout_def)
  from a b c f g show ?thesis by blast
qed

theorem failed_refresh_logs_out_witness:
  "config (error_with (Some me_sent) 401) = Some me_sent
   \<and> unauthorized (error_with (Some me_sent) 401) \<and> retry me_sent \<noteq> Some True
   \<and> \<not> truthy (refreshToken (store (session (Str ''old'') Null denying_server)))
   \<and> fst (response_rejected (session (Str ''old'') Null denying_server)
            (error_with (Some me_sent) 401)) = Rejected (Error ''No refresh token'')
   \<and> truthy (refreshToken (store (session (Str ''old'') (Str ''r1'') offline_server)))
   \<and> reply_to (session (Str ''old'') (Str ''r1'') offline_server)
        (refresh_request (session (Str ''old'') (Str ''r1'') offline_server)) = TransportError
   \<and> store (snd (response_rejected (session (Str ''old'') (Str ''r1'') offline_server)
            (error_with (Some me_sent) 401))) = \<lparr>accessToken = Null, refreshToken = Null\<rparr>
   \<and> reply_to (session (Str ''old'') (Str ''r1'') denying_server)
        (refresh_request (session (Str ''old'') (Str ''r1'') denying_server))
       = HttpReply \<lparr>status = 401, data = None\<rparr>
   \<and> trace (snd (response_rejected (session (Str ''old'') (Str ''r1'') denying_server)
            (error_with (Some me_sent) 401)))
       = [Sent Bare (refresh_request (session (Str ''old'') (Str ''r1'') denying_server)),
          Logout, Navigate ''/login'']
   \<and> me_sent \<noteq> refresh_request (session (Str ''old'') (Str ''r1'') denying_server)
   \<and> fst (response_rejected (session (Str ''old'') (Str ''r1'') denying_server)
            (error_with (Some me_sent) 401))
       \<noteq> Rejected (AxiosError (error_with (Some me_sent) 401))"
  using failed_refresh_logs_out
          [where e = "error_with (Some me_sent) 401" and c = me_sent
             and w = "session (Str ''old'') Null denying_server"
             and r = "\<lparr>status = 401, data = None\<rparr>"]
        failed_refresh_logs_out
          [where e = "error_with (Some me_sent) 401" and c = me_sent
             and w = "session (Str ''old'') (Str ''r1'') offline_server"
             and r = "\<lparr>status = 401, data = None\<rparr>"]
        failed_refresh_logs_out
          [where e = "error_with (Some me_sent) 401" and c = me_sent
             and w = "session (Str ''old'') (Str ''r1'') denying_server"
             and r = "\<lparr>status = 401, data = None\<rparr>"]
  by (simp add: run_defs)

text \<open>
  Claim C4. A 401 on a request not yet marked retried, with no refresh token in the
  session (the test \<^verbatim>\<open>!refreshToken\<close> succeeds): the handler sends nothing, calls
  \<^verbatim>\<open>logout\<close>, which clears the session, navigates to the login page, and rejects with
  the error \<^verbatim>\<open>No refresh token\<close>.
\<close>

theorem no_refresh_token_no_call:
  assumes "config e = Some c" and "unauthorized e" and "retry c \<noteq> Some True"
    and "\<not> truthy (refreshToken (store w))"
  shows "response_rejected w e =
           (Rejected (Error ''No refresh token''),
            w\<lparr>store := logout (store w), trace := trace w @ [Logout, Navigate ''/login'']\<rparr>)
       \<and> sent (trace (snd (response_rejected w e))) = sent (trace w)
       \<and> refresh_calls (trace (snd (response_rejected w e))) = refresh_calls (trace w)
       \<and> accessToken (store (snd (response_rejected w e))) = Null
       \<and> refreshToken (store (snd (response_rejected w e))) = Null"
  using response_rejected_no_token [OF assms] by (simp add: logout_def)

theorem no_refresh_token_no_call_witness:
  "config (error_with (Some me_sent) 401) = Some me_sent
   \<and> unauthorized (error_with (Some me_sent) 401) \<and> retry me_sent \<noteq> Some True
   \<and> \<not> truthy (refreshToken (store (session (Str ''old'') Null renewing_server)))
   \<and> fst (response_rejected (session (Str ''old'') Null renewing_server)
            (error_with (Some me_sent) 401)) = Rejected (Error ''No refresh token'')
   \<and> trace (snd (response_rejected (session (Str ''old'') Null renewing_server)
            (error_with (Some me_sent) 401))) = [Logout, Navigate ''/login'']
   \<and> store (snd (response_rejected (session (Str ''old'') Null renewing_server)
            (error_with (Some me_sent) 401))) = \<lparr>accessToken = Null, refreshToken = Null\<rparr>"
  using no_refresh_token_no_call
          [where e = "error_with (Some me_sent) 401" and c = me_sent
             and w = "session (Str ''old'') Null renewing_server"]
  by (simp add: run_defs)

text \<open>
  Claim C3. An error that is not a 401 response (another status, or no response at
  all), and a 401 whose request is already marked retried: the handler rejects with
  the very error it got and leaves the world as it is, so it sends no refresh call and
  does not touch the session.
\<close>

theorem other_errors_pass_through:
  assumes "\<not> unauthorized e \<or> (\<exists>c. config e = Some c \<and> retry c = Some True)"
  shows "response_rejected w e = (Rejected (AxiosError e), w)"
  using assms by (rule response_rejected_pass)

theorem other_errors_pass_through_witness:
  "\<not> unauthorized (error_with (Some me_sent) 500)
   \<and> response_rejected (session (Str ''old'') (Str ''r1'') renewing_server)
        (error_with (Some me_sent) 500)
       = (Rejected (AxiosError (error_with (Some me_sent) 500)),
          session (Str ''old'') (Str ''r1'') renewing_server)
   \<and> unauthorized (error_with (Some (me_sent\<lparr>retry := Some True\<rparr>)) 401)
   \<and> retry (me_sent\<lparr>retry := Some True\<rparr>) = Some True
   \<and> response_rejected (session (Str ''old'') (Str ''r1'') renewing_server)
        (error_with (Some (me_sent\<lparr>retry := Some True\<rparr>)) 401)
       = (Rejected (AxiosError (error_with (Some (me_sent\<lparr>retry := Some True\<rparr>)) 401)),
          session (Str ''old'') (Str ''r1'') renewing_server)"
  using other_errors_pass_through
          [where e = "error_with (Some me_sent) 500"
             and w = "session (Str ''old'') (Str ''r1'') renewing_server"]
        other_errors_pass_through
          [where e = "error_with (Some (me_sent\<lparr>retry := Some True\<rparr>)) 401"
             and w = "session (Str ''old'') (Str ''r1'') renewing_server"]
  by (simp add: error_with_def unauthorized_def)

text \<open>
  Claim C10. An error whose response has status 401 and which carries no config makes
  the handler throw: reading \<^verbatim>\<open>_retry\<close> of \<^verbatim>\<open>undefined\<close> is a \<^verbatim>\<open>TypeError\<close>, and
  the caller receives it instead of the original error, with nothing else done. An error
  without a config and without status 401 is rejected unchanged. That \<^verbatim>\<open>TypeError\<close>
  arises in no other case: only for a 401 without a config.
\<close>

theorem missing_config_type_error:
  "(config e = None \<and> unauthorized e \<longrightarrow>
      response_rejected w e = (Rejected (TypeError ''_retry''), w))
   \<and> (config e = None \<and> \<not> unauthorized e \<longrightarrow>
      response_rejected w e = (Rejected (AxiosError e), w))
   \<and> (fst (response_rejected w e) = Rejected (TypeError ''_retry'') \<longrightarrow>
      config e = None \<and> unauthorized e)"
proof (intro conjI impI)
  assume "config e = None \<and> unauthorized e"
  then show "response_rejected w e = (Rejected (TypeError ''_retry''), w)"
    by (simp add: response_rejected.simps)
next
  assume "config e = None \<and> \<not> unauthorized e"
  then show "response_rejected w e = (Rejected (AxiosError e), w)"
    by (simp add: response_rejected.simps)
next
  assume t: "fst (response_rejected w e) = Rejected (TypeError ''_retry'')"
  show "config e = None"
  proof (rule ccontr)
    assume "config e \<noteq> None"
    then obtain c where c: "config e = Some c" by auto
    show False
    proof (cases "unauthorized e \<and> retry c \<noteq> Some True")
      case False
      with c t show False by (auto simp: response_rejected_pass)
    next
      case True
      show False
      proof (cases "truthy (refreshToken (store w))")
        case False
        with True c t show False by (simp add: response_rejected_no_token)
      next
        case rt: True
        show False
        proof (cases "settle (refresh_request w) (reply_to w (refresh_request w))")
          case (Inl x)
          with True c rt t show False by (simp add: response_rejected_refresh_failed)
        next
          case (Inr r)
          show False
          proof (cases "data r")
            case None
            with Inr True c rt t show False by (simp add: response_rejected_null_body)
          next
            case (Some obj)
            with Inr True c rt have "\<exists>x. fst (response_rejected w e) = outcome_of x"
              by (auto simp: response_rejected_refresh_ok)
            then obtain x where "fst (response_rejected w e) = outcome_of x" ..
            with t show False by (cases x) simp_all
          qed
        qed
      qed
    qed
  qed
  with t show "unauthorized e"
    by (cases "unauthorized e") (simp_all add: response_rejected.simps)
qed

theorem missing_config_type_error_witness:
  "config (error_with None 401) = None \<and> unauthorized (error_with None 401)
   \<and> response_rejected (session (Str ''old'') (Str ''r1'') denying_server) (error_with None 401)
       = (Rejected (TypeError ''_retry''), session (Str ''old'') (Str ''r1'') denying_server)
   \<and> config (error_with None 500) = None \<and> \<not> unauthorized (error_with None 500)
   \<and> response_rejected (session (Str ''old'') (Str ''r1'') denying_server) (error_with None 500)
       = (Rejected (AxiosError (error_with None 500)),
          session (Str ''old'') (Str ''r1'') denying_server)"
  using missing_config_type_error
          [where e = "error_with None 401"
             and w = "session (Str ''old'') (Str ''r1'') denying_server"]
        missing_config_type_error
          [where e = "error_with None 500"
             and w = "session (Str ''old'') (Str ''r1'') denying_server"]
  by (simp add: error_with_def unauthorized_def)

subsection \<open>Whole calls of the client\<close>

text \<open>
  Claim C5. Any call \<^verbatim>\<open>api(config)\<close>, in any world and against any server, returns
  (the function is total) and, after sending the request, does one of four things:
  nothing more; logout and navigation; one refresh call, then logout and navigation; or
  one refresh call, \<^verbatim>\<open>setTokens\<close> and one replay, which carries the retried flag. So
  at most one refresh call is made for a request, and none for a request that is already
  marked retried. A 401 that comes back for a request with the flag set (the replay) is
  passed through without a refresh call.
\<close>

theorem at_most_one_refresh:
  "(\<exists>evs. trace (snd (api w c)) = trace w @ Sent Api (prepared w c) # evs
       \<and> refresh_calls evs \<le> 1
       \<and> (retry c = Some True \<longrightarrow> evs = [])
       \<and> (evs = [] \<or> evs = [Logout, Navigate ''/login'']
          \<or> evs = [Sent Bare (refresh_request w), Logout, Navigate ''/login'']
          \<or> (\<exists>a p. evs = [Sent Bare (refresh_request w), SetTokens a (refreshToken (store w)),
                            Sent Api p] \<and> retry p = Some True)))
   \<and> (config e = Some c' \<and> retry c' = Some True \<longrightarrow>
        response_rejected w' e = (Rejected (AxiosError e), w'))"
proof
  from api_trace_shape [of w c] obtain evs where
    evs: "trace (snd (api w c)) = trace w @ Sent Api (prepared w c) # evs"
      "retry c = Some True \<longrightarrow> evs = []"
      "evs = [] \<or> evs = [Logout, Navigate ''/login'']
          \<or> evs = [Sent Bare (refresh_request w), Logout, Navigate ''/login'']
          \<or> (\<exists>a p. evs = [Sent Bare (refresh_request w), SetTokens a (refreshToken (store w)),
                            Sent Api p] \<and> retry p = Some True)"
    by blast
  from evs(3) have "refresh_calls evs \<le> 1" by auto
  with evs show "\<exists>evs. trace (snd (api w c)) = trace w @ Sent Api (prepared w c) # evs
       \<and> refresh_calls evs \<le> 1
       \<and> (retry c = Some True \<longrightarrow> evs = [])
       \<and> (evs = [] \<or> evs = [Logout, Navigate ''/login'']
          \<or> evs = [Sent Bare (refresh_request w), Logout, Navigate ''/login'']
          \<or> (\<exists>a p. evs = [Sent Bare (refresh_request w), SetTokens a (refreshToken (store w)),
                            Sent Api p] \<and> retry p = Some True))"
    by blast
next
  show "config e = Some c' \<and> retry c' = Some True \<longrightarrow>
        response_rejected w' e = (Rejected (AxiosError e), w')"
    by (simp add: response_rejected_pass)
qed

theorem at_most_one_refresh_witness:
  "retry (me_sent\<lparr>retry := Some True\<rparr>) = Some True
   \<and> trace (snd (api (session (Str ''old'') (Str ''r1'') denying_server)
                   (me_sent\<lparr>retry := Some True\<rparr>)))
       = [Sent Api (prepared (session (Str ''old'') (Str ''r1'') denying_server)
                      (me_sent\<lparr>retry := Some True\<rparr>))]
   \<and> config (error_with (Some (me_sent\<lparr>retry := Some True\<rparr>)) 401)
       = Some (me_sent\<lparr>retry := Some True\<rparr>)
   \<and> response_rejected (session (Str ''old'') (Str ''r1'') denying_server)
        (error_with (Some (me_sent\<lparr>retry := Some True\<rparr>)) 401)
       = (Rejected (AxiosError (error_with (Some (me_sent\<lparr>retry := Some True\<rparr>)) 401)),
          session (Str ''old'') (Str ''r1'') denying_server)
   \<and> refresh_calls (trace (snd (api (session (Str ''old'') (Str ''r1'') denying_server)
                                   me_request))) \<le> 1"
proof -
  let ?w = "session (Str ''old'') (Str ''r1'') denying_server"
  let ?c = "me_sent\<lparr>retry := Some True\<rparr>"
  let ?e = "error_with (Some ?c) 401"
  have t: "trace ?w = []" by (simp add: session_def)
  have r: "retry ?c = Some True" by simp
  have c: "config ?e = Some ?c" by (simp add: error_with_def)
  from at_most_one_refresh [where w = ?w and c = ?c and e = ?e and c' = ?c and w' = ?w] r c t
  have 1: "trace (snd (api ?w ?c)) = [Sent Api (prepared ?w ?c)]"
    and 2: "response_rejected ?w ?e = (Rejected (AxiosError ?e), ?w)"
    by auto
  from at_most_one_refresh [where w = ?w and c = me_request and e = ?e and c' = ?c and w' = ?w] t
  have 3: "refresh_calls (trace (snd (api ?w me_request))) \<le> 1"
    by auto
  from r c 1 2 3 show ?thesis by blast
qed

text \<open>
  Claim C9. While the session's access token passes the hook's test, the request that
  \<^verbatim>\<open>api(config)\<close> puts on the wire carries \<^verbatim>\<open>Authorization: Bearer <token>\<close> with the
  token that is in the session at dispatch time. A value of that header preset on the
  config is overwritten, and so is the one that line 50 wrote onto a request that is
  being replayed.
\<close>

theorem bearer_is_current_token:
  assumes "truthy (accessToken (store w))"
  shows "(\<exists>evs. trace (snd (api w c)) = trace w @ Sent Api (prepared w c) # evs)
       \<and> map_of (headers (prepared w c)) ''Authorization''
           = Some (''Bearer '' @ to_string (accessToken (store w)))
       \<and> map_of (headers (prepared w
             (c\<lparr>headers := AList.update ''Authorization'' h (headers c)\<rparr>))) ''Authorization''
           = Some (''Bearer '' @ to_string (accessToken (store w)))
       \<and> map_of (headers (prepared w (replay_request c a))) ''Authorization''
           = Some (''Bearer '' @ to_string (accessToken (store w)))"
  using assms api_trace_shape [of w c] by (auto simp: prepared_authorization)

theorem bearer_is_current_token_witness:
  "truthy (accessToken (store (session (Str ''old'') (Str ''r1'') denying_server)))
   \<and> map_of (headers (prepared (session (Str ''old'') (Str ''r1'') denying_server)
                 (me_request\<lparr>headers := [(''Authorization'', ''Basic abc'')]\<rparr>))) ''Authorization''
       = Some ''Bearer old''
   \<and> map_of (headers (prepared (session (Str ''old'') (Str ''r1'') denying_server)
                 (replay_request me_sent (Str ''stale'')))) ''Authorization''
       = Some ''Bearer old''"
  using bearer_is_current_token
          [where w = "session (Str ''old'') (Str ''r1'') denying_server"
             and c = "me_request\<lparr>headers := [(''Authorization'', ''Basic abc'')]\<rparr>"
             and h = "''Bearer stale''" and a = "Str ''stale''"]
        bearer_is_current_token
          [where w = "session (Str ''old'') (Str ''r1'') denying_server"
             and c = me_sent
             and h = "''Bearer stale''" and a = "Str ''stale''"]
  by (simp add: session_def)

text \<open>
  Claim C8. The refresh call of the handler is sent by the bare library: it carries no
  \<^verbatim>\<open>Authorization\<close> header, and whatever its answer, no further refresh call follows;
  when the answer is a 401 the handler logs out, navigates and rejects with that error.
  The exported \<^verbatim>\<open>authApi.refresh\<close> goes through the instance: its request carries
  \<^verbatim>\<open>Authorization: Bearer <access token>\<close> when the session has one, and when it is
  answered with a 401 (and a refresh token is in the session) the handler's refresh
  call follows.
\<close>

theorem refresh_call_is_bare:
  "map_of (headers (refresh_request w)) ''Authorization'' = None
   \<and> (config e = Some c \<and> unauthorized e \<and> retry c \<noteq> Some True
      \<and> truthy (refreshToken (store w)) \<longrightarrow>
        (\<exists>evs. trace (snd (response_rejected w e)) = trace w @ Sent Bare (refresh_request w) # evs
              \<and> refresh_calls evs = 0))
   \<and> (config e = Some c \<and> unauthorized e \<and> retry c \<noteq> Some True
      \<and> truthy (refreshToken (store w))
      \<and> reply_to w (refresh_request w) = HttpReply r \<and> status r = 401 \<longrightarrow>
        response_rejected w e =
          (Rejected (AxiosError \<lparr>config = Some (refresh_request w), response = Some r\<rparr>),
           w\<lparr>store := logout (store w),
             trace := trace w @ [Sent Bare (refresh_request w), Logout, Navigate ''/login'']\<rparr>))
   \<and> (truthy (accessToken (store w)) \<longrightarrow>
        (\<exists>p evs. trace (snd (authApi_refresh w tok)) = trace w @ Sent Api p # evs
            \<and> url p = ''/auth/refresh/'' \<and> http_method p = ''post''
            \<and> body p = Some [(''refresh'', Str tok)]
            \<and> map_of (headers p) ''Authorization''
                = Some (''Bearer '' @ to_string (accessToken (store w)))
            \<and> (reply_to w p = HttpReply r' \<and> status r' = 401
                \<and> truthy (refreshToken (store w)) \<longrightarrow>
                  (\<exists>evs'. evs = Sent Bare (refresh_request w) # evs'))))"
proof (intro conjI impI)
  show "map_of (headers (refresh_request w)) ''Authorization'' = None"
    by (simp add: refresh_request_def)
next
  assume a: "config e = Some c \<and> unauthorized e \<and> retry c \<noteq> Some True
      \<and> truthy (refreshToken (store w))"
  then have "config e = Some c" "unauthorized e" "retry c \<noteq> Some True" by simp_all
  from response_rejected_trace_shape [OF this, of w] a
  show "\<exists>evs. trace (snd (response_rejected w e)) = trace w @ Sent Bare (refresh_request w) # evs
              \<and> refresh_calls evs = 0"
    by auto
next
  assume a: "config e = Some c \<and> unauthorized e \<and> retry c \<noteq> Some True
      \<and> truthy (refreshToken (store w))
      \<and> reply_to w (refresh_request w) = HttpReply r \<and> status r = 401"
  then show "response_rejected w e =
          (Rejected (AxiosError \<lparr>config = Some (refresh_request w), response = Some r\<rparr>),
           w\<lparr>store := logout (store w),
             trace := trace w @ [Sent Bare (refresh_request w), Logout, Navigate ''/login'']\<rparr>)"
    by (simp add: response_rejected_refresh_failed settle_bad)
next
  assume t: "truthy (accessToken (store w))"
  let ?c = "\<lparr>baseURL = None, url = ''/auth/refresh/'', http_method = ''post'', headers = [],
             body = Some [(''refresh'', Str tok)], retry = None\<rparr>"
  let ?p = "prepared w ?c"
  from api_trace_shape [of w ?c] obtain evs where
    evs: "trace (snd (api w ?c)) = trace w @ Sent Api ?p # evs" by blast
  have f: "url ?p = ''/auth/refresh/'' \<and> http_method ?p = ''post''
         \<and> body ?p = Some [(''refresh'', Str tok)]"
    by (simp add: prepared_def request_interceptor_def mergeConfig_def Let_def)
  have g: "\<exists>evs'. evs = Sent Bare (refresh_request w) # evs'"
    if "reply_to w ?p = HttpReply r' \<and> status r' = 401 \<and> truthy (refreshToken (store w))"
  proof -
    from that have "\<exists>evs. trace (snd (api w ?c))
           = trace w @ Sent Api ?p # Sent Bare (refresh_request w) # evs"
      by (intro api_unauthorized_refreshes [of w ?c r']) simp_all
    with evs show ?thesis by auto
  qed
  from evs f g prepared_authorization [OF t, of ?c]
  show "\<exists>p evs. trace (snd (authApi_refresh w tok)) = trace w @ Sent Api p # evs
            \<and> url p = ''/auth/refresh/'' \<and> http_method p = ''post''
            \<and> body p = Some [(''refresh'', Str tok)]
            \<and> map_of (headers p) ''Authorization''
                = Some (''Bearer '' @ to_string (accessToken (store w)))
            \<and> (reply_to w p = HttpReply r' \<and> status r' = 401
                \<and> truthy (refreshToken (store w)) \<longrightarrow>
                  (\<exists>evs'. evs = Sent Bare (refresh_request w) # evs'))"
    unfolding authApi_refresh_def api_post_def
    by (intro exI [of _ ?p] exI [of _ evs]) blast
qed

theorem refresh_call_is_bare_witness:
  "map_of (headers (refresh_request (session (Str ''old'') (Str ''r1'') denying_server)))
      ''Authorization'' = None
   \<and> config (error_with (Some me_sent) 401) = Some me_sent
   \<and> unauthorized (error_with (Some me_sent) 401) \<and> retry me_sent \<noteq> Some True
   \<and> truthy (refreshToken (store (session (Str ''old'') (Str ''r1'') denying_server)))
   \<and> reply_to (session (Str ''old'') (Str ''r1'') denying_server)
        (refresh_request (session (Str ''old'') (Str ''r1'') denying_server))
       = HttpReply \<lparr>status = 401, data = None\<rparr>
   \<and> trace (snd (response_rejected (session (Str ''old'') (Str ''r1'') denying_server)
            (error_with (Some me_sent) 401)))
       = [Sent Bare (refresh_request (session (Str ''old'') (Str ''r1'') denying_server)),
          Logout, Navigate ''/login'']
   \<and> truthy (accessToken (store (session (Str ''old'') (Str ''r1'') denying_server)))
   \<and> (\<exists>p evs. trace (snd (authApi_refresh (session (Str ''old'') (Str ''r1'') denying_server)
                               ''r1''))
          = Sent Api p
            # Sent Bare (refresh_request (session (Str ''old'') (Str ''r1'') denying_server))
            # evs
        \<and> map_of (headers p) ''Authorization'' = Some ''Bearer old'')"
proof -
  let ?w = "session (Str ''old'') (Str ''r1'') denying_server"
  let ?e = "error_with (Some me_sent) 401"
  let ?r = "\<lparr>status = 401, data = None\<rparr>"
  note inst = refresh_call_is_bare
      [where w = ?w and e = ?e and c = me_sent and r = ?r and r' = ?r and tok = "''r1''"]
  have h: "config ?e = Some me_sent" "unauthorized ?e" "retry me_sent \<noteq> Some True"
    "truthy (refreshToken (store ?w))" "truthy (accessToken (store ?w))" "trace ?w = []"
    by (simp_all add: run_defs)
  have d: "reply_to ?w p = HttpReply ?r" for p
    by (simp add: reply_to_def session_def denying_server_def)
  from inst have 1: "map_of (headers (refresh_request ?w)) ''Authorization'' = None"
    by blast
  from inst h d have 2: "trace (snd (response_rejected ?w ?e))
       = [Sent Bare (refresh_request ?w), Logout, Navigate ''/login'']"
    by simp
  from inst h obtain p evs where
    p: "trace (snd (authApi_refresh ?w ''r1'')) = trace ?w @ Sent Api p # evs"
      "map_of (headers p) ''Authorization''
         = Some (''Bearer '' @ to_string (accessToken (store ?w)))"
      "reply_to ?w p = HttpReply ?r \<and> status ?r = 401 \<and> truthy (refreshToken (store ?w))
         \<longrightarrow> (\<exists>evs'. evs = Sent Bare (refresh_request ?w) # evs')"
    by blast
  from p(3) d h obtain evs' where "evs = Sent Bare (refresh_request ?w) # evs'" by auto
  with p(1,2) h have 3: "\<exists>p evs. trace (snd (authApi_refresh ?w ''r1''))
          = Sent Api p # Sent Bare (refresh_request ?w) # evs
        \<and> map_of (headers p) ''Authorization'' = Some ''Bearer old''"
    by (auto simp: session_def)
  from 1 2 3 h d show ?thesis by blast
qed

end
